theory Spec2Isabelle
  imports
    Complex_Main
    "HOL-Library.AList"
    "HOL-Library.Char_ord"
    "HOL-Library.List_Lexorder"
    "HOL-Library.Option_ord"
begin

section \<open>The YieldMax dashboard script (yieldmax\_app.py)\<close>

text \<open>
  The script is re-executed top to bottom on every interaction.  One execution is the
  function \<open>run\<close> below: it takes the session state left by the previous execution and
  the inputs of this interaction (selected tickers, whether the button was pressed, the
  dates picked in the two date widgets, the clock) and returns the session state and the
  page it rendered.  The market-data provider is a parameter.
\<close>

subsection \<open>Values\<close>

text \<open>
  A float64 cell of a table: \<open>NaN\<close> (pandas' missing value) or a number.  The script
  only compares cells with 0 and 1, which is exact on floats, so numbers are rationals;
  infinities are left out.
\<close>

datatype float64 = NaN | Num rat

definition isna :: "float64 \<Rightarrow> bool" where
  "isna v = (v = NaN)"

text \<open>\<open>v == c\<close> and \<open>v > c\<close> on a cell: both are False on NaN.\<close>

fun float_eq :: "float64 \<Rightarrow> rat \<Rightarrow> bool" where
  "float_eq NaN c = False"
| "float_eq (Num x) c = (x = c)"

fun float_gt :: "float64 \<Rightarrow> rat \<Rightarrow> bool" where
  "float_gt NaN c = False"
| "float_gt (Num x) c = (c < x)"

definition fillna :: "rat \<Rightarrow> float64 \<Rightarrow> float64" where
  "fillna c v = (if isna v then Num c else v)"

text \<open>
  A timestamp: the wall-clock reading in nanoseconds since 1970-01-01 00:00, and the
  timezone it is read in (\<open>None\<close> for a timezone-naive timestamp).  \<open>tz_localize(None)\<close>
  removes the timezone and keeps the wall-clock reading.
\<close>

record timestamp =
  wall :: int
  tz :: "string option"

definition tz_localize_None :: "timestamp \<Rightarrow> timestamp" where
  "tz_localize_None ts = ts\<lparr>tz := None\<rparr>"

definition naive :: "int \<Rightarrow> timestamp" where
  "naive w = \<lparr>wall = w, tz = None\<rparr>"

definition ns_per_day :: int where
  "ns_per_day = 86400000000000"

text \<open>A calendar date (\<open>datetime.date\<close>) is a number of days since 1970-01-01.\<close>

type_synonym date = int

definition to_date :: "timestamp \<Rightarrow> date" where
  \<comment> \<open>\<open>.date()\<close>\<close>
  "to_date ts = wall ts div ns_per_day"

definition to_datetime :: "date \<Rightarrow> timestamp" where
  \<comment> \<open>\<open>pd.to_datetime\<close> of a date: midnight of that day, timezone-naive\<close>
  "to_datetime d = naive (d * ns_per_day)"

definition datetime_2000_1_1 :: timestamp where
  \<comment> \<open>\<open>datetime(2000, 1, 1)\<close>: day 10957\<close>
  "datetime_2000_1_1 = naive (10957 * ns_per_day)"

datatype error =
    ValueError
  | StreamlitAPIException
  | ProviderError string

subsection \<open>Tables\<close>

text \<open>
  A row of the table \<open>history(period="max")\<close> returns: the timezone-aware index and the
  two columns the script reads (it stores the others and never looks at them).
\<close>

record hist_row =
  hist_index :: timestamp
  hist_Close :: float64
  hist_Dividends :: float64

text \<open>
  A row of a dividend table.  The column \<open>Ticker\<close> exists only once the table has been
  tagged (line 90); \<open>None\<close> stands for its absence.  A table is the list of its rows, so
  a table without rows does not show whether it has the column.
\<close>

record div_row =
  Date :: timestamp
  Dividends :: float64
  Ticker :: "string option"

type_synonym hist_frame = "hist_row list"
type_synonym div_frame = "div_row list"

text \<open>
  A Python dict is an association list in insertion order; \<open>d[k] = v\<close> is
  \<open>AList.update k v d\<close> (replace in place, or append).
\<close>

type_synonym 'v dict = "(string \<times> 'v) list"

text \<open>The provider: one \<open>history\<close> request for a symbol, which may raise.\<close>

type_synonym provider = "string \<Rightarrow> error + hist_frame"

subsection \<open>Fetching (lines 26-38)\<close>

definition reset_index :: "hist_frame \<Rightarrow> div_frame" where
  \<comment> \<open>\<open>[["Dividends"]].reset_index()\<close> with the columns renamed \<open>Date\<close>, \<open>Dividends\<close>\<close>
  "reset_index hist =
     map (\<lambda>h. \<lparr>Date = hist_index h, Dividends = hist_Dividends h, Ticker = None\<rparr>) hist"

definition normalize_divs :: "hist_frame \<Rightarrow> div_frame" where
  \<comment> \<open>lines 32-35\<close>
  "normalize_divs hist =
     (let divs = reset_index hist;
          divs = map (\<lambda>r. r\<lparr>Dividends := fillna 0 (Dividends r)\<rparr>) divs;
          divs = map (\<lambda>r. r\<lparr>Date := tz_localize_None (Date r)\<rparr>) divs
      in divs)"

text \<open>
  The loop body requests the history twice, once for \<open>hist\<close> and once for \<open>divs\<close>;
  the two requests are the parameters \<open>history\<close> and \<open>history'\<close>.
\<close>

fun fetch_loop ::
  "provider \<Rightarrow> provider \<Rightarrow> string list \<Rightarrow> hist_frame dict \<times> div_frame dict
     \<Rightarrow> error + (hist_frame dict \<times> div_frame dict)" where
  "fetch_loop history history' [] acc = Inr acc"
| "fetch_loop history history' (ticker # tickers) (data, dividends) =
     (case history ticker of
        Inl e \<Rightarrow> Inl e
      | Inr hist \<Rightarrow>
          (case history' ticker of
             Inl e \<Rightarrow> Inl e
           | Inr hist' \<Rightarrow>
               fetch_loop history history' tickers
                 (AList.update ticker hist data,
                  AList.update ticker (normalize_divs hist') dividends)))"

definition fetch_yieldmax_data ::
  "provider \<Rightarrow> provider \<Rightarrow> string list \<Rightarrow> error + (hist_frame dict \<times> div_frame dict)" where
  "fetch_yieldmax_data history history' tickers = fetch_loop history history' tickers ([], [])"

subsection \<open>Session state and the fetch trigger (lines 41-51)\<close>

record session_state =
  fund_data :: "hist_frame dict"
  fund_dividends :: "div_frame dict"

definition fresh_session :: session_state where
  \<comment> \<open>lines 41-44, in a session that has neither key yet\<close>
  "fresh_session = \<lparr>fund_data = [], fund_dividends = []\<rparr>"

definition fetch_trigger ::
  "provider \<Rightarrow> provider \<Rightarrow> bool \<Rightarrow> string list \<Rightarrow> session_state \<Rightarrow> error + session_state" where
  \<comment> \<open>lines 47-51; an exception in the fetch leaves the session as it was\<close>
  "fetch_trigger history history' button selected_tickers st =
     (if button then
        (case fetch_yieldmax_data history history' selected_tickers of
           Inl e \<Rightarrow> Inl e
         | Inr (data, dividends) \<Rightarrow> Inr \<lparr>fund_data = data, fund_dividends = dividends\<rparr>)
      else Inr st)"

subsection \<open>Date range (lines 54-67)\<close>

definition pd_concat :: "div_frame list \<Rightarrow> error + div_frame" where
  \<comment> \<open>\<open>pd.concat\<close> raises on an empty list of tables\<close>
  "pd_concat frames = (if frames = [] then Inl ValueError else Inr (concat frames))"

definition localize_dates :: "div_frame \<Rightarrow> div_frame" where
  "localize_dates rows = map (\<lambda>r. r\<lparr>Date := tz_localize_None (Date r)\<rparr>) rows"

text \<open>\<open>min()\<close> and \<open>max()\<close> of a timezone-naive date column; \<open>None\<close> is \<open>NaT\<close>.\<close>

definition date_min :: "div_frame \<Rightarrow> timestamp option" where
  "date_min rows =
     (if rows = [] then None else Some (naive (Min (set (map (\<lambda>r. wall (Date r)) rows)))))"

definition date_max :: "div_frame \<Rightarrow> timestamp option" where
  "date_max rows =
     (if rows = [] then None else Some (naive (Max (set (map (\<lambda>r. wall (Date r)) rows)))))"

definition resolve_date_range ::
  "timestamp \<Rightarrow> div_frame dict \<Rightarrow> error + (timestamp option \<times> timestamp option)" where
  \<comment> \<open>lines 54-62; \<open>today\<close> is the reading of \<open>datetime.today()\<close>\<close>
  "resolve_date_range today dividends =
     (if dividends \<noteq> [] then
        (let all_dividends = map snd dividends in
         case pd_concat all_dividends of
           Inl e \<Rightarrow> Inl e
         | Inr combined_dividends \<Rightarrow>
             (let combined_dividends = localize_dates combined_dividends
              in Inr (date_min combined_dividends, date_max combined_dividends)))
      else Inr (Some datetime_2000_1_1, Some today))"

text \<open>
  The date widget of the UI framework, from its documented behaviour: the default value
  and the bounds must be dates, which \<open>NaT\<close> is not, so the widget cannot be built from
  it; a default outside the bounds is refused; the user can pick any date within the
  bounds and no other (\<open>pick = None\<close>: the widget was left alone).
\<close>

definition date_input ::
  "timestamp option \<Rightarrow> timestamp option \<Rightarrow> timestamp option \<Rightarrow> date option
     \<Rightarrow> error + date" where
  "date_input val min_value max_value pick =
     (case (val, min_value, max_value) of
        (Some v, Some lo, Some hi) \<Rightarrow>
          (if to_date v < to_date lo \<or> to_date hi < to_date v then Inl StreamlitAPIException
           else (case pick of
                   None \<Rightarrow> Inr (to_date v)
                 | Some d \<Rightarrow>
                     if to_date lo \<le> d \<and> d \<le> to_date hi then Inr d else Inr (to_date v)))
      | _ \<Rightarrow> Inl ValueError)"

subsection \<open>Price chart (lines 70-83)\<close>

record scatter =
  scatter_name :: string
  scatter_x :: "timestamp list"
  scatter_y :: "float64 list"

definition price_chart :: "hist_frame dict \<Rightarrow> scatter list option" where
  \<comment> \<open>one \<open>go.Scatter\<close> per item of the dict; \<open>None\<close>: no chart is drawn\<close>
  "price_chart data =
     (if data \<noteq> [] then
        Some (map (\<lambda>(ticker, hist).
                \<lparr>scatter_name = ticker, scatter_x = map hist_index hist,
                 scatter_y = map hist_Close hist\<rparr>) data)
      else None)"

subsection \<open>Dividend table (lines 86-100)\<close>

text \<open>
  Lines 88-91: each cached table gets the column \<open>Ticker\<close>, in place, so the loop returns
  the cache as it leaves it together with the list \<open>all_dividends\<close>.
\<close>

definition tag_dividends :: "div_frame dict \<Rightarrow> div_frame dict \<times> div_frame list" where
  "tag_dividends dividends =
     (let tagged = map (\<lambda>(ticker, divs). (ticker, map (\<lambda>r. r\<lparr>Ticker := Some ticker\<rparr>) divs))
                     dividends
      in (tagged, map snd tagged))"

text \<open>
  A table with unique row and column labels: the labels and the cell at each pair of
  labels (\<open>df.at[i, c]\<close>).
\<close>

record pivot_frame =
  pv_index :: "string option list"
  pv_columns :: "timestamp list"
  pv_at :: "string option \<Rightarrow> timestamp \<Rightarrow> float64"

definition cell :: "div_frame \<Rightarrow> string option \<Rightarrow> timestamp \<Rightarrow> float64" where
  "cell rows t d =
     (case find (\<lambda>r. Ticker r = t \<and> Date r = d) rows of
        None \<Rightarrow> NaN
      | Some r \<Rightarrow> Dividends r)"

definition pivot :: "div_frame \<Rightarrow> error + pivot_frame" where
  \<comment> \<open>\<open>pivot(index="Ticker", columns="Date", values="Dividends")\<close>: sorted unique labels,
      NaN where no row gives the cell, ValueError on a repeated (Ticker, Date) pair\<close>
  "pivot rows =
     (if \<not> distinct (map (\<lambda>r. (Ticker r, Date r)) rows) then Inl ValueError
      else Inr \<lparr>pv_index = sort (remdups (map Ticker rows)),
                pv_columns = sort_key wall (remdups (map Date rows)),
                pv_at = cell rows\<rparr>)"

definition filter_dates :: "date \<Rightarrow> date \<Rightarrow> div_frame \<Rightarrow> div_frame" where
  \<comment> \<open>line 96\<close>
  "filter_dates start_date end_date rows =
     filter (\<lambda>r. wall (to_datetime start_date) \<le> wall (Date r)
                \<and> wall (Date r) \<le> wall (to_datetime end_date)) rows"

definition all_rows :: "(float64 \<Rightarrow> bool) \<Rightarrow> pivot_frame \<Rightarrow> timestamp \<Rightarrow> bool" where
  \<comment> \<open>\<open>(...).all(axis=0)\<close> at one column\<close>
  "all_rows p pv d = list_all (\<lambda>t. p (pv_at pv t d)) (pv_index pv)"

definition drop_columns :: "pivot_frame \<Rightarrow> pivot_frame" where
  \<comment> \<open>line 99\<close>
  "drop_columns pv =
     pv\<lparr>pv_columns :=
          filter (\<lambda>d. \<not> (all_rows (\<lambda>v. float_eq v 0) pv d
                         \<or> all_rows (\<lambda>v. float_eq v 1) pv d
                         \<or> all_rows isna pv d))
            (pv_columns pv)\<rparr>"

definition pivoted_dividends :: "div_frame list \<Rightarrow> date \<Rightarrow> date \<Rightarrow> error + pivot_frame" where
  \<comment> \<open>lines 94-99\<close>
  "pivoted_dividends all_dividends start_date end_date =
     (case pd_concat all_dividends of
        Inl e \<Rightarrow> Inl e
      | Inr combined_dividends \<Rightarrow>
          (let combined_dividends = localize_dates combined_dividends;
               filtered_dividends = filter_dates start_date end_date combined_dividends
           in case pivot filtered_dividends of
                Inl e \<Rightarrow> Inl e
              | Inr pv \<Rightarrow> Inr (drop_columns pv)))"

subsection \<open>Dividend chart (lines 104-122)\<close>

record bar =
  bar_name :: "string option"
  bar_x :: "timestamp list"
  bar_y :: "float64 list"

definition non_zero_data :: "pivot_frame \<Rightarrow> string option \<Rightarrow> (timestamp \<times> float64) list" where
  \<comment> \<open>\<open>pivoted_dividends.loc[ticker][pivoted_dividends.loc[ticker] > 0]\<close>\<close>
  "non_zero_data pv ticker =
     filter (\<lambda>(d, v). float_gt v 0) (map (\<lambda>d. (d, pv_at pv ticker d)) (pv_columns pv))"

definition fig_dividends :: "pivot_frame \<Rightarrow> bar list" where
  \<comment> \<open>lines 105-113: one \<open>go.Bar\<close> per row label\<close>
  "fig_dividends pv =
     map (\<lambda>ticker. \<lparr>bar_name = ticker, bar_x = map fst (non_zero_data pv ticker),
                     bar_y = map snd (non_zero_data pv ticker)\<rparr>) (pv_index pv)"

subsection \<open>One execution of the script\<close>

record inputs =
  selected_tickers :: "string list"
  button :: bool
  start_pick :: "date option"
  end_pick :: "date option"
  today :: timestamp

text \<open>
  What one execution leaves behind: the session state, the values of the two date
  widgets, what was drawn, and the exception that ended the execution, if any.  What was
  drawn before an exception stays on the page, and so do changes to the cached tables.
\<close>

record page =
  session :: session_state
  date_range :: "(date \<times> date) option"
  fig :: "scatter list option"
  dataframe :: "pivot_frame option"
  bars :: "bar list option"
  failure :: "error option"

definition blank :: "session_state \<Rightarrow> page" where
  "blank st = \<lparr>session = st, date_range = None, fig = None, dataframe = None, bars = None,
               failure = None\<rparr>"

definition dividends_section :: "date \<Rightarrow> date \<Rightarrow> page \<Rightarrow> page" where
  \<comment> \<open>lines 86-126\<close>
  "dividends_section start_date end_date pg =
     (if fund_dividends (session pg) \<noteq> [] then
        (let (cache, all_dividends) = tag_dividends (fund_dividends (session pg));
             pg = pg\<lparr>session := (session pg)\<lparr>fund_dividends := cache\<rparr>\<rparr>
         in if all_dividends \<noteq> [] then
              (case pivoted_dividends all_dividends start_date end_date of
                 Inl e \<Rightarrow> pg\<lparr>failure := Some e\<rparr>
               | Inr pv \<Rightarrow> pg\<lparr>dataframe := Some pv, bars := Some (fig_dividends pv)\<rparr>)
            else pg)
      else pg)"

definition render :: "timestamp \<Rightarrow> date option \<Rightarrow> date option \<Rightarrow> session_state \<Rightarrow> page" where
  \<comment> \<open>lines 54-126\<close>
  "render now start_choice end_choice st =
     (case resolve_date_range now (fund_dividends st) of
        Inl e \<Rightarrow> (blank st)\<lparr>failure := Some e\<rparr>
      | Inr (min_date, max_date) \<Rightarrow>
          (case date_input min_date min_date max_date start_choice of
             Inl e \<Rightarrow> (blank st)\<lparr>failure := Some e\<rparr>
           | Inr start_date \<Rightarrow>
               (case date_input max_date min_date max_date end_choice of
                  Inl e \<Rightarrow> (blank st)\<lparr>failure := Some e\<rparr>
                | Inr end_date \<Rightarrow>
                    dividends_section start_date end_date
                      ((blank st)\<lparr>date_range := Some (start_date, end_date),
                                  fig := price_chart (fund_data st)\<rparr>))))"

definition run :: "provider \<Rightarrow> provider \<Rightarrow> inputs \<Rightarrow> session_state \<Rightarrow> page" where
  \<comment> \<open>the whole script, from the session state of lines 41-44\<close>
  "run history history' inp st =
     (case fetch_trigger history history' (button inp) (selected_tickers inp) st of
        Inl e \<Rightarrow> (blank st)\<lparr>failure := Some e\<rparr>
      | Inr st' \<Rightarrow> render (today inp) (start_pick inp) (end_pick inp) st')"

subsection \<open>Sample data\<close>

text \<open>A provider that knows one symbol, with a missing dividend on its first day.\<close>

definition ymax_hist :: hist_frame where
  "ymax_hist =
     [\<lparr>hist_index = \<lparr>wall = 19358 * ns_per_day, tz = Some ''America/New_York''\<rparr>,
       hist_Close = Num 20, hist_Dividends = NaN\<rparr>,
      \<lparr>hist_index = \<lparr>wall = 19389 * ns_per_day, tz = Some ''America/New_York''\<rparr>,
       hist_Close = Num 21, hist_Dividends = Num (1/2)\<rparr>]"

definition ymax_history :: provider where
  "ymax_history t = (if t = ''YMAX'' then Inr ymax_hist else Inl (ProviderError t))"

definition ymax_divs :: div_frame where
  "ymax_divs =
     [\<lparr>Date = naive (19358 * ns_per_day), Dividends = Num 0, Ticker = None\<rparr>,
      \<lparr>Date = naive (19389 * ns_per_day), Dividends = Num (1/2), Ticker = None\<rparr>]"

text \<open>The scenario of the specification: TSLY pays 0.5 on 2023-01-01, nothing else is paid.\<close>

definition scenario :: "div_frame dict" where
  "scenario =
     [(''TSLY'', [\<lparr>Date = naive (19358 * ns_per_day), Dividends = Num (1/2), Ticker = None\<rparr>,
                  \<lparr>Date = naive (19389 * ns_per_day), Dividends = Num 0, Ticker = None\<rparr>]),
      (''YMAX'', [\<lparr>Date = naive (19358 * ns_per_day), Dividends = Num 0, Ticker = None\<rparr>,
                  \<lparr>Date = naive (19389 * ns_per_day), Dividends = Num 0, Ticker = None\<rparr>])]"

definition scenario_long :: div_frame where
  "scenario_long =
     [\<lparr>Date = naive (19358 * ns_per_day), Dividends = Num (1/2), Ticker = Some ''TSLY''\<rparr>,
      \<lparr>Date = naive (19389 * ns_per_day), Dividends = Num 0, Ticker = Some ''TSLY''\<rparr>,
      \<lparr>Date = naive (19358 * ns_per_day), Dividends = Num 0, Ticker = Some ''YMAX''\<rparr>,
      \<lparr>Date = naive (19389 * ns_per_day), Dividends = Num 0, Ticker = Some ''YMAX''\<rparr>]"

definition scenario_pivot :: pivot_frame where
  "scenario_pivot =
     \<lparr>pv_index = [Some ''TSLY'', Some ''YMAX''],
      pv_columns = [naive (19358 * ns_per_day)],
      pv_at = cell scenario_long\<rparr>"

text \<open>A cache whose table repeats a date makes the pivot raise.\<close>

definition repeated :: "div_frame dict" where
  "repeated =
     [(''YMAX'', [\<lparr>Date = naive (19358 * ns_per_day), Dividends = Num 0, Ticker = None\<rparr>,
                  \<lparr>Date = naive (19358 * ns_per_day), Dividends = Num (1/2), Ticker = None\<rparr>])]"

text \<open>A provider with no history for any symbol, the inputs of an interaction on the
  one-symbol provider, and the session its fetch leaves.\<close>

definition empty_history :: provider where
  "empty_history t = Inr []"

definition ymax_inputs :: "bool \<Rightarrow> date option \<Rightarrow> date option \<Rightarrow> inputs" where
  "ymax_inputs pressed sp ep =
     \<lparr>selected_tickers = [''YMAX''], button = pressed, start_pick = sp, end_pick = ep,
      today = naive (20000 * ns_per_day)\<rparr>"

definition ymax_session :: session_state where
  "ymax_session = \<lparr>fund_data = [(''YMAX'', ymax_hist)], fund_dividends = [(''YMAX'', ymax_divs)]\<rparr>"

text \<open>The keys, dates and amounts of the cached dividend tables, without the column
  \<open>Ticker\<close>.\<close>

definition untagged :: "div_frame dict \<Rightarrow> (string \<times> (timestamp \<times> float64) list) list" where
  "untagged dividends = map (\<lambda>(ticker, divs). (ticker, map (\<lambda>r. (Date r, Dividends r)) divs)) dividends"

section \<open>Properties\<close>

subsection \<open>Fetching\<close>

lemma set_update_subset: "set (AList.update k v al) \<subseteq> insert (k, v) (set al)"
  by (induction al) auto

lemma fetch_loop_entries:
  assumes "fetch_loop h h' ts acc = Inr acc'"
    and "\<forall>(t, rows) \<in> set (snd acc). \<exists>hist. h' t = Inr hist \<and> rows = normalize_divs hist"
  shows "\<forall>(t, rows) \<in> set (snd acc'). \<exists>hist. h' t = Inr hist \<and> rows = normalize_divs hist"
  using assms
proof (induction ts arbitrary: acc)
  case Nil
  then show ?case by simp
next
  case (Cons a ts)
  obtain data dividends where acc: "acc = (data, dividends)" by (cases acc)
  from Cons.prems(1) acc obtain hist hist' where
    h: "h' a = Inr hist'"
    and rec: "fetch_loop h h' ts (AList.update a hist data,
                AList.update a (normalize_divs hist') dividends) = Inr acc'"
    by (auto split: sum.splits)
  have "\<forall>(t, rows) \<in> set (AList.update a (normalize_divs hist') dividends).
          \<exists>hist. h' t = Inr hist \<and> rows = normalize_divs hist"
    using Cons.prems(2) acc h set_update_subset [of a "normalize_divs hist'" dividends]
    by auto
  with Cons.IH [OF rec] show ?case by simp
qed

lemma fetch_loop_keys:
  "fetch_loop h h' ts acc = Inr acc' \<Longrightarrow>
     fst ` set (snd acc') = fst ` set (snd acc) \<union> set ts
     \<and> fst ` set (fst acc') = fst ` set (fst acc) \<union> set ts"
proof (induction ts arbitrary: acc)
  case Nil
  then show ?case by simp
next
  case (Cons a ts)
  obtain data dividends where acc: "acc = (data, dividends)" by (cases acc)
  from Cons.prems(1) acc obtain hist hist' where
    rec: "fetch_loop h h' ts (AList.update a hist data,
                AList.update a (normalize_divs hist') dividends) = Inr acc'"
    by (auto split: sum.splits)
  from Cons.IH [OF rec] show ?case
    by (simp add: acc dom_update)
qed

lemma fetch_loop_distinct:
  "fetch_loop h h' ts acc = Inr acc' \<Longrightarrow>
     distinct (map fst (snd acc)) \<Longrightarrow> distinct (map fst (fst acc)) \<Longrightarrow>
     distinct (map fst (snd acc')) \<and> distinct (map fst (fst acc'))"
proof (induction ts arbitrary: acc)
  case Nil
  then show ?case by simp
next
  case (Cons a ts)
  obtain data dividends where acc: "acc = (data, dividends)" by (cases acc)
  from Cons.prems(1) acc obtain hist hist' where
    rec: "fetch_loop h h' ts (AList.update a hist data,
                AList.update a (normalize_divs hist') dividends) = Inr acc'"
    by (auto split: sum.splits)
  show ?case
    using Cons.IH [OF rec] Cons.prems(2,3) by (simp add: acc distinct_update)
qed

lemma fetch_entries:
  assumes "fetch_yieldmax_data h h' ts = Inr (data, dividends)"
    and "(t, rows) \<in> set dividends"
  shows "\<exists>hist. h' t = Inr hist \<and> rows = normalize_divs hist"
  using fetch_loop_entries [of h h' ts "([], [])" "(data, dividends)"] assms
  by (auto simp: fetch_yieldmax_data_def)

lemma fetch_keys:
  assumes "fetch_yieldmax_data h h' ts = Inr (data, dividends)"
  shows "fst ` set dividends = set ts" and "fst ` set data = set ts"
    and "distinct (map fst dividends)" and "distinct (map fst data)"
  using fetch_loop_keys [of h h' ts "([], [])" "(data, dividends)"]
    fetch_loop_distinct [of h h' ts "([], [])" "(data, dividends)"] assms
  by (auto simp: fetch_yieldmax_data_def)

lemma normalize_divs_length: "length (normalize_divs hist) = length hist"
  by (simp add: normalize_divs_def reset_index_def)

lemma normalize_divs_nth:
  "i < length hist \<Longrightarrow>
     normalize_divs hist ! i =
       \<lparr>Date = tz_localize_None (hist_index (hist ! i)),
        Dividends = fillna 0 (hist_Dividends (hist ! i)), Ticker = None\<rparr>"
  by (simp add: normalize_divs_def reset_index_def)

lemma normalize_divs_naive: "r \<in> set (normalize_divs hist) \<Longrightarrow> tz (Date r) = None"
  by (auto simp: normalize_divs_def reset_index_def tz_localize_None_def)

lemma localize_naive:
  "\<forall>r \<in> set rows. tz (Date r) = None \<Longrightarrow> localize_dates rows = rows"
  by (induction rows) (auto simp: localize_dates_def tz_localize_None_def)

lemma fetch_ymax:
  "fetch_yieldmax_data ymax_history ymax_history [''YMAX''] =
     Inr ([(''YMAX'', ymax_hist)], [(''YMAX'', ymax_divs)])"
  by (simp add: fetch_yieldmax_data_def ymax_history_def ymax_hist_def ymax_divs_def
      normalize_divs_def reset_index_def fillna_def isna_def tz_localize_None_def naive_def)

text \<open>
  C8.  After a successful fetch, every requested ticker has a dividend table with one row
  per row of the history the provider returned, for the same day; no amount in it is
  missing; where the provider's amount was missing the amount is 0, and every other
  amount is the provider's.
\<close>

theorem fetch_fills_missing_dividends:
  assumes "fetch_yieldmax_data history history' tickers = Inr (data, dividends)"
    and "ticker \<in> set tickers"
  shows "\<exists>hist divs. history' ticker = Inr hist \<and> map_of dividends ticker = Some divs
           \<and> length divs = length hist
           \<and> (\<forall>i < length hist.
                 wall (Date (divs ! i)) = wall (hist_index (hist ! i))
                 \<and> \<not> isna (Dividends (divs ! i))
                 \<and> (isna (hist_Dividends (hist ! i)) \<longrightarrow> Dividends (divs ! i) = Num 0)
                 \<and> (\<not> isna (hist_Dividends (hist ! i))
                      \<longrightarrow> Dividends (divs ! i) = hist_Dividends (hist ! i)))"
proof -
  from assms(2) fetch_keys(1,3) [OF assms(1)] obtain divs where
    m: "map_of dividends ticker = Some divs" and mem: "(ticker, divs) \<in> set dividends"
    by (metis (no_types, opaque_lifting) image_iff map_of_eq_Some_iff prod.collapse)
  from fetch_entries [OF assms(1) mem] obtain hist where
    h: "history' ticker = Inr hist" "divs = normalize_divs hist" by blast
  show ?thesis
    using h m
    by (auto simp: normalize_divs_length normalize_divs_nth fillna_def isna_def
        tz_localize_None_def)
qed

theorem fetch_fills_missing_dividends_witness:
  "fetch_yieldmax_data ymax_history ymax_history [''YMAX'']
     = Inr ([(''YMAX'', ymax_hist)], [(''YMAX'', ymax_divs)])
   \<and> ''YMAX'' \<in> set [''YMAX'']
   \<and> (\<exists>hist divs. ymax_history ''YMAX'' = Inr hist
         \<and> map_of [(''YMAX'', ymax_divs)] ''YMAX'' = Some divs
         \<and> length divs = length hist
         \<and> isna (hist_Dividends (hist ! 0)) \<and> Dividends (divs ! 0) = Num 0)"
proof -
  have m: "''YMAX'' \<in> set [''YMAX'']" by simp
  from fetch_fills_missing_dividends [OF fetch_ymax m]
  obtain hist divs where
    h: "ymax_history ''YMAX'' = Inr hist"
      "map_of [(''YMAX'', ymax_divs)] ''YMAX'' = Some divs"
      "length divs = length hist"
      "\<forall>i < length hist.
          wall (Date (divs ! i)) = wall (hist_index (hist ! i))
          \<and> \<not> isna (Dividends (divs ! i))
          \<and> (isna (hist_Dividends (hist ! i)) \<longrightarrow> Dividends (divs ! i) = Num 0)
          \<and> (\<not> isna (hist_Dividends (hist ! i))
               \<longrightarrow> Dividends (divs ! i) = hist_Dividends (hist ! i))"
    by blast
  from h(1) have na: "isna (hist_Dividends (hist ! 0))" and len: "0 < length hist"
    by (auto simp: ymax_history_def ymax_hist_def isna_def)
  with h(4) have "Dividends (divs ! 0) = Num 0" by blast
  with h na m fetch_ymax show ?thesis by blast
qed

text \<open>
  C9.  After a successful fetch, the cached dividend tables are those of the requested
  tickers and every date in them is timezone-naive; removing the timezone again after
  concatenating them (lines 57 and 95) changes nothing.
\<close>

theorem fetched_dates_naive:
  assumes "fetch_yieldmax_data history history' tickers = Inr (data, dividends)"
  shows "fst ` set dividends = set tickers
         \<and> (\<forall>(ticker, divs) \<in> set dividends. \<forall>r \<in> set divs. tz (Date r) = None)
         \<and> localize_dates (concat (map snd dividends)) = concat (map snd dividends)"
proof -
  have k: "fst ` set dividends = set tickers" by (rule fetch_keys(1) [OF assms])
  have n: "\<forall>(ticker, divs) \<in> set dividends. \<forall>r \<in> set divs. tz (Date r) = None"
    using fetch_entries [OF assms] normalize_divs_naive by blast
  have "localize_dates (concat (map snd dividends)) = concat (map snd dividends)"
    by (rule localize_naive) (use n in auto)
  with k n show ?thesis by blast
qed

theorem fetched_dates_naive_witness:
  "fetch_yieldmax_data ymax_history ymax_history [''YMAX'']
     = Inr ([(''YMAX'', ymax_hist)], [(''YMAX'', ymax_divs)])
   \<and> tz (hist_index (hd ymax_hist)) = Some ''America/New_York''
   \<and> tz (Date (hd ymax_divs)) = None
   \<and> localize_dates (concat (map snd [(''YMAX'', ymax_divs)]))
       = concat (map snd [(''YMAX'', ymax_divs)])"
proof -
  from fetched_dates_naive [OF fetch_ymax]
  have "\<forall>(ticker, divs) \<in> set [(''YMAX'', ymax_divs)]. \<forall>r \<in> set divs. tz (Date r) = None"
    and l: "localize_dates (concat (map snd [(''YMAX'', ymax_divs)]))
       = concat (map snd [(''YMAX'', ymax_divs)])"
    by blast+
  then have "tz (Date (hd ymax_divs)) = None"
    by (simp add: ymax_divs_def)
  moreover have "tz (hist_index (hd ymax_hist)) = Some ''America/New_York''"
    by (simp add: ymax_hist_def)
  ultimately show ?thesis using fetch_ymax l by blast
qed

subsection \<open>Date range\<close>

lemma wall_localize [simp]: "wall (tz_localize_None ts) = wall ts"
  by (simp add: tz_localize_None_def)

lemma localize_dates_walls:
  "map (\<lambda>r. wall (Date r)) (localize_dates rows) = map (\<lambda>r. wall (Date r)) rows"
  by (simp add: localize_dates_def)

lemma set_concat_walls:
  "set (map (\<lambda>r. wall (Date r)) (concat (map snd dividends)))
     = (\<Union>(ticker, divs) \<in> set dividends. (\<lambda>r. wall (Date r)) ` set divs)"
  by (induction dividends) auto

text \<open>
  C2.  With an empty cache the resolver returns exactly 2000-01-01 and today; with a
  non-empty cache it returns the least and the greatest dividend date over all cached
  tables (\<open>NaT\<close> when the tables hold no row at all, as \<open>min()\<close> and \<open>max()\<close> do).
\<close>

theorem resolve_date_range_min_max:
  "resolve_date_range now [] = Inr (Some datetime_2000_1_1, Some now)
   \<and> to_date datetime_2000_1_1 = 10957 \<and> tz datetime_2000_1_1 = None
   \<and> wall datetime_2000_1_1 = 10957 * ns_per_day
   \<and> (dividends \<noteq> [] \<longrightarrow>
        (let dates = (\<Union>(ticker, divs) \<in> set dividends. (\<lambda>r. wall (Date r)) ` set divs)
         in resolve_date_range now dividends =
              Inr (if dates = {} then None else Some (naive (Min dates)),
                   if dates = {} then None else Some (naive (Max dates)))))"
proof -
  have a: "resolve_date_range now [] = Inr (Some datetime_2000_1_1, Some now)"
    by (simp add: resolve_date_range_def)
  have b: "to_date datetime_2000_1_1 = 10957 \<and> tz datetime_2000_1_1 = None
     \<and> wall datetime_2000_1_1 = 10957 * ns_per_day"
    by (simp add: datetime_2000_1_1_def to_date_def naive_def ns_per_day_def)
  have c: "resolve_date_range now dividends =
              Inr (if dates = {} then None else Some (naive (Min dates)),
                   if dates = {} then None else Some (naive (Max dates)))"
    if ne: "dividends \<noteq> []"
      and d: "dates = (\<Union>(ticker, divs) \<in> set dividends. (\<lambda>r. wall (Date r)) ` set divs)"
    for dates
  proof -
    let ?rows = "localize_dates (concat (map snd dividends))"
    have s: "set (map (\<lambda>r. wall (Date r)) ?rows) = dates"
      unfolding localize_dates_walls set_concat_walls d ..
    have e: "(?rows = []) = (dates = {})"
      using s by (metis map_is_Nil_conv set_empty)
    have r: "resolve_date_range now dividends = Inr (date_min ?rows, date_max ?rows)"
      using ne by (simp add: resolve_date_range_def pd_concat_def Let_def)
    show ?thesis
      unfolding r date_min_def date_max_def s e by simp
  qed
  from a b c show ?thesis by (simp add: Let_def)
qed

theorem resolve_date_range_min_max_witness:
  "scenario \<noteq> []
   \<and> resolve_date_range (naive 0) scenario
       = Inr (Some (naive (19358 * ns_per_day)), Some (naive (19389 * ns_per_day)))
   \<and> resolve_date_range (naive 0) [] = Inr (Some datetime_2000_1_1, Some (naive 0))"
proof -
  have ne: "scenario \<noteq> []" by (simp add: scenario_def)
  have d: "(\<Union>(ticker, divs) \<in> set scenario. (\<lambda>r. wall (Date r)) ` set divs)
             = {19358 * ns_per_day, 19389 * ns_per_day}"
    by (auto simp: scenario_def naive_def)
  have m: "Min {19358 * ns_per_day, 19389 * ns_per_day} = 19358 * ns_per_day"
    "Max {19358 * ns_per_day, 19389 * ns_per_day} = 19389 * ns_per_day"
    by (simp_all add: ns_per_day_def)
  from resolve_date_range_min_max [of "naive 0" scenario] ne
  show ?thesis
    unfolding Let_def d m by simp
qed

subsection \<open>Dividend table and chart\<close>

lemma float_eq_iff: "float_eq v c \<longleftrightarrow> v = Num c"
  by (cases v) auto

lemma float_gt_iff: "float_gt v c \<longleftrightarrow> (\<exists>x. v = Num x \<and> c < x)"
  by (cases v) auto

lemma all_rows_iff: "all_rows p pv d \<longleftrightarrow> (\<forall>t \<in> set (pv_index pv). p (pv_at pv t d))"
  by (simp add: all_rows_def list_all_iff)

lemma cell_hit:
  "distinct (map (\<lambda>r. (Ticker r, Date r)) rows) \<Longrightarrow> r \<in> set rows \<Longrightarrow>
     cell rows (Ticker r) (Date r) = Dividends r"
proof (induction rows)
  case Nil
  then show ?case by simp
next
  case (Cons a rows)
  show ?case
  proof (cases "Ticker a = Ticker r \<and> Date a = Date r")
    case True
    with Cons.prems have "a = r" by (auto simp: image_iff)
    then show ?thesis by (simp add: cell_def)
  next
    case False
    with Cons.prems have "r \<in> set rows" "distinct (map (\<lambda>r. (Ticker r, Date r)) rows)"
      by auto
    with Cons.IH have "cell rows (Ticker r) (Date r) = Dividends r" by simp
    with False show ?thesis by (auto simp: cell_def)
  qed
qed

lemma cell_miss:
  "\<forall>r \<in> set rows. \<not> (Ticker r = t \<and> Date r = d) \<Longrightarrow> cell rows t d = NaN"
  by (induction rows) (auto simp: cell_def)

lemma pivot_Inr:
  assumes "pivot rows = Inr pv"
  shows "distinct (map (\<lambda>r. (Ticker r, Date r)) rows)"
    and "pv_index pv = sort (remdups (map Ticker rows))"
    and "pv_columns pv = sort_key wall (remdups (map Date rows))"
    and "pv_at pv = cell rows"
  using assms by (auto simp: pivot_def split: if_splits)

lemma pivoted_dividends_Inr:
  assumes "pivoted_dividends all_dividends start_date end_date = Inr pv"
  obtains pv0 where
    "pivot (filter_dates start_date end_date (localize_dates (concat all_dividends))) = Inr pv0"
    and "pv = drop_columns pv0" and "all_dividends \<noteq> []"
  using assms
  by (auto simp: pivoted_dividends_def pd_concat_def Let_def split: if_splits sum.splits)

lemma drop_columns_simps [simp]:
  "pv_index (drop_columns pv) = pv_index pv"
  "pv_at (drop_columns pv) = pv_at pv"
  by (simp_all add: drop_columns_def)

lemma set_drop_columns:
  "set (pv_columns (drop_columns pv)) =
     {d \<in> set (pv_columns pv).
        \<not> ((\<forall>t \<in> set (pv_index pv). pv_at pv t d = Num 0)
           \<or> (\<forall>t \<in> set (pv_index pv). pv_at pv t d = Num 1)
           \<or> (\<forall>t \<in> set (pv_index pv). pv_at pv t d = NaN))}"
  by (auto simp: drop_columns_def all_rows_iff float_eq_iff isna_def)

text \<open>
  C1.  When the pivot succeeds, the table shown has a row for every ticker with a dividend
  row in the selected range, each such row's amount in its cell and NaN in every other
  cell; its date columns are exactly the dates in range whose column is not all 0, not
  all 1 and not all NaN.  In particular a date with a value other than 0, 1 and NaN is
  kept, whatever the other tickers show that day.
\<close>

theorem pivoted_dividends_columns:
  assumes "pivoted_dividends all_dividends start_date end_date = Inr pv"
  shows "let combined = localize_dates (concat all_dividends);
             filtered = filter_dates start_date end_date combined
         in set filtered =
              {r \<in> set combined. start_date * ns_per_day \<le> wall (Date r)
                                  \<and> wall (Date r) \<le> end_date * ns_per_day}
          \<and> set (pv_index pv) = Ticker ` set filtered
          \<and> (\<forall>r \<in> set filtered. pv_at pv (Ticker r) (Date r) = Dividends r)
          \<and> (\<forall>t d. (\<forall>r \<in> set filtered. \<not> (Ticker r = t \<and> Date r = d)) \<longrightarrow> pv_at pv t d = NaN)
          \<and> distinct (pv_columns pv) \<and> sorted (map wall (pv_columns pv))
          \<and> set (pv_columns pv) =
              {d \<in> Date ` set filtered.
                 \<not> ((\<forall>t \<in> set (pv_index pv). pv_at pv t d = Num 0)
                    \<or> (\<forall>t \<in> set (pv_index pv). pv_at pv t d = Num 1)
                    \<or> (\<forall>t \<in> set (pv_index pv). pv_at pv t d = NaN))}
          \<and> (\<forall>d \<in> Date ` set filtered. \<forall>t \<in> set (pv_index pv). \<forall>x.
                 pv_at pv t d = Num x \<and> x \<noteq> 0 \<and> x \<noteq> 1 \<longrightarrow> d \<in> set (pv_columns pv))"
proof -
  define combined where "combined = localize_dates (concat all_dividends)"
  define filtered where "filtered = filter_dates start_date end_date combined"
  from assms obtain pv0 where p: "pivot filtered = Inr pv0" and pv: "pv = drop_columns pv0"
    unfolding filtered_def combined_def by (rule pivoted_dividends_Inr)
  note pi = pivot_Inr [OF p]
  have f: "set filtered =
              {r \<in> set combined. start_date * ns_per_day \<le> wall (Date r)
                                  \<and> wall (Date r) \<le> end_date * ns_per_day}"
    by (auto simp: filtered_def filter_dates_def to_datetime_def naive_def)
  have i: "set (pv_index pv) = Ticker ` set filtered"
    by (simp add: pv pi(2))
  have h: "\<forall>r \<in> set filtered. pv_at pv (Ticker r) (Date r) = Dividends r"
    by (simp add: pv pi(4) cell_hit [OF pi(1)])
  have m: "\<forall>t d. (\<forall>r \<in> set filtered. \<not> (Ticker r = t \<and> Date r = d)) \<longrightarrow> pv_at pv t d = NaN"
    by (simp add: pv pi(4) cell_miss)
  have d: "distinct (pv_columns pv)"
    by (simp add: pv drop_columns_def pi(3))
  have "sorted (map wall (filter P (sort_key wall xs)))" for P and xs :: "timestamp list"
    by (simp add: sorted_filter)
  then have s: "sorted (map wall (pv_columns pv))"
    by (simp add: pv drop_columns_def pi(3))
  have c0: "set (pv_columns pv0) = Date ` set filtered"
    by (simp add: pi(3))
  have c: "set (pv_columns pv) =
              {d \<in> Date ` set filtered.
                 \<not> ((\<forall>t \<in> set (pv_index pv). pv_at pv t d = Num 0)
                    \<or> (\<forall>t \<in> set (pv_index pv). pv_at pv t d = Num 1)
                    \<or> (\<forall>t \<in> set (pv_index pv). pv_at pv t d = NaN))}"
    unfolding pv set_drop_columns c0 drop_columns_simps ..
  have o: "\<forall>d \<in> Date ` set filtered. \<forall>t \<in> set (pv_index pv). \<forall>x.
             pv_at pv t d = Num x \<and> x \<noteq> 0 \<and> x \<noteq> 1 \<longrightarrow> d \<in> set (pv_columns pv)"
    unfolding c by fastforce
  from f i h m d s c o show ?thesis
    unfolding Let_def combined_def [symmetric] filtered_def [symmetric] by blast
qed

lemma tag_scenario: "snd (tag_dividends scenario) = 
   [[\<lparr>Date = naive (19358 * ns_per_day), Dividends = Num (1/2), Ticker = Some ''TSLY''\<rparr>,
      \<lparr>Date = naive (19389 * ns_per_day), Dividends = Num 0, Ticker = Some ''TSLY''\<rparr>],
      [\<lparr>Date = naive (19358 * ns_per_day), Dividends = Num 0, Ticker = Some ''YMAX''\<rparr>,
      \<lparr>Date = naive (19389 * ns_per_day), Dividends = Num 0, Ticker = Some ''YMAX''\<rparr>]]"
  by (simp add: tag_dividends_def scenario_def)

lemma scenario_filtered:
  "filter_dates 19358 19389 (localize_dates (concat (snd (tag_dividends scenario)))) = scenario_long"
  by (simp add: tag_scenario scenario_long_def localize_dates_def filter_dates_def
      to_datetime_def tz_localize_None_def naive_def ns_per_day_def)


lemma scenario_cells:
  "cell scenario_long (Some ''TSLY'') (naive (19358 * ns_per_day)) = Num (1/2)"
  "cell scenario_long (Some ''YMAX'') (naive (19358 * ns_per_day)) = Num 0"
  "cell scenario_long (Some ''TSLY'') (naive (19389 * ns_per_day)) = Num 0"
  "cell scenario_long (Some ''YMAX'') (naive (19389 * ns_per_day)) = Num 0"
  by (simp_all add: cell_def scenario_long_def naive_def ns_per_day_def)

lemma scenario_pivot0:
  "pivot scenario_long =
     Inr \<lparr>pv_index = [Some ''TSLY'', Some ''YMAX''],
          pv_columns = [naive (19358 * ns_per_day), naive (19389 * ns_per_day)],
          pv_at = cell scenario_long\<rparr>"
proof -
  have i: "sort (remdups (map Ticker scenario_long)) = [Some ''TSLY'', Some ''YMAX'']"
    by (simp add: scenario_long_def less_eq_option_def list_le_def less_char_def)
  have c: "sort_key wall (remdups (map Date scenario_long))
             = [naive (19358 * ns_per_day), naive (19389 * ns_per_day)]"
    by (simp add: scenario_long_def naive_def ns_per_day_def)
  have d: "distinct (map (\<lambda>r. (Ticker r, Date r)) scenario_long)"
    by (simp add: scenario_long_def naive_def ns_per_day_def)
  show ?thesis
    unfolding pivot_def i c using d by simp
qed

lemma scenario_pivoted:
  "pivoted_dividends (snd (tag_dividends scenario)) 19358 19389 = Inr scenario_pivot"
proof -
  have ne: "snd (tag_dividends scenario) \<noteq> []" by (simp add: tag_scenario)
  have "drop_columns \<lparr>pv_index = [Some ''TSLY'', Some ''YMAX''],
          pv_columns = [naive (19358 * ns_per_day), naive (19389 * ns_per_day)],
          pv_at = cell scenario_long\<rparr> = scenario_pivot"
    by (simp add: drop_columns_def all_rows_def scenario_cells isna_def scenario_pivot_def)
  then show ?thesis
    using ne by (simp add: pivoted_dividends_def pd_concat_def scenario_filtered scenario_pivot0)
qed

theorem pivoted_dividends_columns_witness:
  "pivoted_dividends (snd (tag_dividends scenario)) 19358 19389 = Inr scenario_pivot
   \<and> pv_at scenario_pivot (Some ''TSLY'') (naive (19358 * ns_per_day)) = Num (1/2)
   \<and> pv_at scenario_pivot (Some ''YMAX'') (naive (19358 * ns_per_day)) = Num 0
   \<and> pv_at scenario_pivot (Some ''TSLY'') (naive (19389 * ns_per_day)) = Num 0
   \<and> pv_at scenario_pivot (Some ''YMAX'') (naive (19389 * ns_per_day)) = Num 0
   \<and> naive (19358 * ns_per_day) \<in> set (pv_columns scenario_pivot)
   \<and> naive (19389 * ns_per_day) \<notin> set (pv_columns scenario_pivot)
   \<and> set (pv_index scenario_pivot) = Ticker ` set scenario_long"
proof -
  note t = pivoted_dividends_columns [OF scenario_pivoted, unfolded Let_def scenario_filtered]
  have "set (pv_index scenario_pivot) = Ticker ` set scenario_long"
    by (rule t [THEN conjunct2, THEN conjunct1])
  moreover have "pv_columns scenario_pivot = [naive (19358 * ns_per_day)]"
    "pv_at scenario_pivot = cell scenario_long"
    by (simp_all add: scenario_pivot_def)
  moreover have "naive (19389 * ns_per_day) \<noteq> naive (19358 * ns_per_day)"
    by (simp add: naive_def ns_per_day_def)
  ultimately show ?thesis
    using scenario_pivoted scenario_cells by simp
qed

lemma bar_values:
  assumes "b \<in> set (fig_dividends pv)"
  obtains t where "t \<in> set (pv_index pv)"
    and "b = \<lparr>bar_name = t, bar_x = map fst (non_zero_data pv t),
               bar_y = map snd (non_zero_data pv t)\<rparr>"
  using assms unfolding fig_dividends_def set_map by (rule imageE)

lemma non_zero_data_eq:
  "non_zero_data pv t =
     filter (\<lambda>(d, v). \<exists>x. v = Num x \<and> 0 < x) (map (\<lambda>d. (d, pv_at pv t d)) (pv_columns pv))"
  by (simp add: non_zero_data_def float_gt_iff)

text \<open>
  C7.  Every bar trace of the dividend chart holds exactly the strictly positive cells of
  its ticker's row, in column order: no bar has a value that is zero, negative or NaN.
\<close>

theorem bars_are_positive:
  assumes "b \<in> set (fig_dividends pv)"
  shows "length (bar_x b) = length (bar_y b)
         \<and> zip (bar_x b) (bar_y b) =
             filter (\<lambda>(d, v). \<exists>x. v = Num x \<and> 0 < x)
               (map (\<lambda>d. (d, pv_at pv (bar_name b) d)) (pv_columns pv))
         \<and> (\<forall>y \<in> set (bar_y b). \<exists>x. y = Num x \<and> 0 < x)"
proof -
  from assms obtain t where
    b: "b = \<lparr>bar_name = t, bar_x = map fst (non_zero_data pv t),
               bar_y = map snd (non_zero_data pv t)\<rparr>"
    by (rule bar_values)
  have l: "length (bar_x b) = length (bar_y b)"
    by (simp add: b)
  have "zip (bar_x b) (bar_y b) = non_zero_data pv (bar_name b)"
    by (simp add: b zip_map_fst_snd)
  then have z: "zip (bar_x b) (bar_y b) =
             filter (\<lambda>(d, v). \<exists>x. v = Num x \<and> 0 < x)
               (map (\<lambda>d. (d, pv_at pv (bar_name b) d)) (pv_columns pv))"
    by (simp only: non_zero_data_eq)
  have "set (bar_y b) = snd ` set (non_zero_data pv t)"
    by (simp add: b)
  then have p: "\<forall>y \<in> set (bar_y b). \<exists>x. y = Num x \<and> 0 < x"
    unfolding non_zero_data_eq by auto
  from l z p show ?thesis by (intro conjI)
qed

lemma scenario_bars:
  "fig_dividends scenario_pivot =
     [\<lparr>bar_name = Some ''TSLY'', bar_x = [naive (19358 * ns_per_day)], bar_y = [Num (1/2)]\<rparr>,
      \<lparr>bar_name = Some ''YMAX'', bar_x = [], bar_y = []\<rparr>]"
  by (simp add: fig_dividends_def non_zero_data_def scenario_pivot_def scenario_cells)

theorem bars_are_positive_witness:
  "\<lparr>bar_name = Some ''TSLY'', bar_x = [naive (19358 * ns_per_day)], bar_y = [Num (1/2)]\<rparr>
     \<in> set (fig_dividends scenario_pivot)
   \<and> pv_at scenario_pivot (Some ''YMAX'') (naive (19358 * ns_per_day)) = Num 0
   \<and> (\<exists>x. Num (1/2) = Num x \<and> 0 < x)"
proof -
  let ?b = "\<lparr>bar_name = Some ''TSLY'', bar_x = [naive (19358 * ns_per_day)], bar_y = [Num (1/2)]\<rparr>"
  have m: "?b \<in> set (fig_dividends scenario_pivot)"
    by (simp add: scenario_bars)
  have "\<forall>y \<in> set (bar_y ?b). \<exists>x. y = Num x \<and> 0 < x"
    by (rule bars_are_positive [OF m, THEN conjunct2, THEN conjunct2])
  then have "\<exists>x. Num (1/2) = Num x \<and> 0 < x" by simp
  with m scenario_cells(2) show ?thesis by (simp add: scenario_pivot_def)
qed

subsection \<open>The pivot step\<close>

lemma tag_dividends_Cons:
  "snd (tag_dividends ((t, divs) # rest)) =
     map (\<lambda>r. r\<lparr>Ticker := Some t\<rparr>) divs # snd (tag_dividends rest)"
  by (simp add: tag_dividends_def)

lemma tag_dividends_Nil_iff: "snd (tag_dividends dividends) = [] \<longleftrightarrow> dividends = []"
  by (simp add: tag_dividends_def)

lemma localize_dates_append:
  "localize_dates (xs @ ys) = localize_dates xs @ localize_dates ys"
  by (simp add: localize_dates_def)

lemma long_tickers:
  "r \<in> set (localize_dates (concat (snd (tag_dividends dividends)))) \<Longrightarrow>
     \<exists>t \<in> fst ` set dividends. Ticker r = Some t"
proof (induction dividends)
  case Nil
  then show ?case by (simp add: tag_dividends_def localize_dates_def)
next
  case (Cons a dividends)
  obtain t divs where a: "a = (t, divs)" by (cases a)
  from Cons.prems consider
    "r \<in> set (localize_dates (map (\<lambda>r. r\<lparr>Ticker := Some t\<rparr>) divs))"
    | "r \<in> set (localize_dates (concat (snd (tag_dividends dividends))))"
    by (auto simp: a tag_dividends_Cons localize_dates_append)
  then show ?case
  proof cases
    case 1
    then have "Ticker r = Some t" by (auto simp: localize_dates_def)
    then show ?thesis by (simp add: a)
  next
    case 2
    from Cons.IH [OF 2] show ?thesis by auto
  qed
qed

lemma distinct_tagged:
  assumes "distinct (map (\<lambda>r. wall (Date r)) divs)"
  shows "distinct (map (\<lambda>r. (Ticker r, Date r))
           (localize_dates (map (\<lambda>r. r\<lparr>Ticker := Some t\<rparr>) divs)))"
proof -
  have "map (\<lambda>r. (Ticker r, Date r)) (localize_dates (map (\<lambda>r. r\<lparr>Ticker := Some t\<rparr>) divs))
          = map (\<lambda>r. (Some t, tz_localize_None (Date r))) divs"
    by (simp add: localize_dates_def)
  moreover have "distinct (map (\<lambda>r. (Some t, tz_localize_None (Date r))) divs)"
  proof -
    from assms have d: "distinct divs" and i: "inj_on (\<lambda>r. wall (Date r)) (set divs)"
      by (simp_all add: distinct_map)
    have "inj_on (\<lambda>r. (Some t, tz_localize_None (Date r))) (set divs)"
    proof (rule inj_onI)
      fix x y
      assume x: "x \<in> set divs" and y: "y \<in> set divs"
        and e: "(Some t, tz_localize_None (Date x)) = (Some t, tz_localize_None (Date y))"
      from e have "wall (tz_localize_None (Date x)) = wall (tz_localize_None (Date y))"
        by simp
      then have "wall (Date x) = wall (Date y)" by simp
      with i x y show "x = y" by (auto dest: inj_onD)
    qed
    with d show ?thesis by (simp add: distinct_map)
  qed
  ultimately show ?thesis by simp
qed

lemma distinct_long:
  assumes "distinct (map fst dividends)"
    and "\<forall>(ticker, divs) \<in> set dividends. distinct (map (\<lambda>r. wall (Date r)) divs)"
  shows "distinct (map (\<lambda>r. (Ticker r, Date r))
           (localize_dates (concat (snd (tag_dividends dividends)))))"
  using assms
proof (induction dividends)
  case Nil
  then show ?case by (simp add: tag_dividends_def localize_dates_def)
next
  case (Cons a dividends)
  obtain t divs where a: "a = (t, divs)" by (cases a)
  let ?A = "localize_dates (map (\<lambda>r. r\<lparr>Ticker := Some t\<rparr>) divs)"
  let ?B = "localize_dates (concat (snd (tag_dividends dividends)))"
  have A: "distinct (map (\<lambda>r. (Ticker r, Date r)) ?A)"
    using Cons.prems(2) a by (intro distinct_tagged) simp
  have B: "distinct (map (\<lambda>r. (Ticker r, Date r)) ?B)"
    using Cons.prems a by (intro Cons.IH) simp_all
  have tA: "\<forall>r \<in> set ?A. Ticker r = Some t"
    by (simp add: localize_dates_def)
  have nt: "t \<notin> fst ` set dividends"
    using Cons.prems(1) a by simp
  have tB: "\<forall>r \<in> set ?B. Ticker r \<noteq> Some t"
  proof
    fix r assume "r \<in> set ?B"
    from long_tickers [OF this] obtain t' where "t' \<in> fst ` set dividends" "Ticker r = Some t'"
      by blast
    with nt show "Ticker r \<noteq> Some t" by auto
  qed
  have "(\<lambda>r. (Ticker r, Date r)) ` set ?A \<inter> (\<lambda>r. (Ticker r, Date r)) ` set ?B = {}"
    using tA tB by fastforce
  with A B show ?case
    by (simp add: a tag_dividends_Cons localize_dates_append)
qed

lemma pivoted_dividends_succeeds_iff:
  assumes "all_dividends \<noteq> []"
  shows "(\<exists>pv. pivoted_dividends all_dividends start_date end_date = Inr pv) \<longleftrightarrow>
     distinct (map (\<lambda>r. (Ticker r, Date r))
       (filter_dates start_date end_date (localize_dates (concat all_dividends))))"
  using assms by (simp add: pivoted_dividends_def pd_concat_def pivot_def Let_def)

lemma pivoted_dividends_fails_iff:
  assumes "all_dividends \<noteq> []"
  shows "pivoted_dividends all_dividends start_date end_date = Inl e \<longleftrightarrow>
     e = ValueError \<and> \<not> distinct (map (\<lambda>r. (Ticker r, Date r))
       (filter_dates start_date end_date (localize_dates (concat all_dividends))))"
  using assms by (auto simp: pivoted_dividends_def pd_concat_def pivot_def Let_def)

text \<open>
  C10.  The pivot raises exactly when the filtered long-form table repeats a (ticker,
  date) pair (\<open>pivoted_dividends_fails_iff\<close>).  For a non-empty cache with distinct keys
  in which every ticker's dates are pairwise distinct (as wall-clock readings, which is
  what a timezone-naive date is), the pivot step returns a table for every selected
  range, and the dividends section ends without an exception.
\<close>

theorem pivot_succeeds_on_distinct_dates:
  assumes "dividends \<noteq> []"
    and "distinct (map fst dividends)"
    and "\<forall>(ticker, divs) \<in> set dividends. distinct (map (\<lambda>r. wall (Date r)) divs)"
  shows "(\<exists>pv. pivoted_dividends (snd (tag_dividends dividends)) start_date end_date = Inr pv)
         \<and> (\<forall>e. pivoted_dividends (snd (tag_dividends dividends)) start_date end_date \<noteq> Inl e)
         \<and> (fund_dividends (session pg) = dividends \<longrightarrow>
              failure (dividends_section start_date end_date pg) = failure pg
              \<and> dataframe (dividends_section start_date end_date pg) \<noteq> None)"
proof -
  let ?all = "snd (tag_dividends dividends)"
  have ne: "?all \<noteq> []" using assms(1) by (simp add: tag_dividends_Nil_iff)
  have "distinct (map (\<lambda>r. (Ticker r, Date r))
          (filter_dates start_date end_date (localize_dates (concat ?all))))"
    unfolding filter_dates_def by (intro distinct_map_filter distinct_long assms(2,3))
  with pivoted_dividends_succeeds_iff [OF ne] obtain pv where
    pv: "pivoted_dividends ?all start_date end_date = Inr pv" by blast
  have "failure (dividends_section start_date end_date pg) = failure pg
        \<and> dataframe (dividends_section start_date end_date pg) \<noteq> None"
    if "fund_dividends (session pg) = dividends"
    using that assms(1) ne pv
    by (simp add: dividends_section_def split_beta Let_def)
  with pv show ?thesis by simp
qed

lemma repeated_raises:
  "pivoted_dividends (snd (tag_dividends repeated)) 19358 19358 = Inl ValueError"
  by (simp add: pivoted_dividends_def pd_concat_def tag_dividends_def repeated_def
      localize_dates_def filter_dates_def to_datetime_def tz_localize_None_def naive_def
      ns_per_day_def pivot_def)

theorem pivot_succeeds_on_distinct_dates_witness:
  "scenario \<noteq> [] \<and> distinct (map fst scenario)
   \<and> distinct (map (\<lambda>r. wall (Date r)) (the (map_of scenario ''TSLY'')))
   \<and> distinct (map (\<lambda>r. wall (Date r)) (the (map_of scenario ''YMAX'')))
   \<and> (\<exists>pv. pivoted_dividends (snd (tag_dividends scenario)) 19358 19389 = Inr pv)
   \<and> pivoted_dividends (snd (tag_dividends repeated)) 19358 19358 = Inl ValueError"
proof -
  have a: "scenario \<noteq> []" and b: "distinct (map fst scenario)"
    by (simp_all add: scenario_def)
  have c: "\<forall>(ticker, divs) \<in> set scenario. distinct (map (\<lambda>r. wall (Date r)) divs)"
    by (simp add: scenario_def naive_def ns_per_day_def)
  have d: "distinct (map (\<lambda>r. wall (Date r)) (the (map_of scenario ''TSLY'')))"
    "distinct (map (\<lambda>r. wall (Date r)) (the (map_of scenario ''YMAX'')))"
    by (simp_all add: scenario_def naive_def ns_per_day_def)
  have "\<exists>pv. pivoted_dividends (snd (tag_dividends scenario)) 19358 19389 = Inr pv"
    by (rule pivot_succeeds_on_distinct_dates [OF a b c, THEN conjunct1])
  with a b d repeated_raises show ?thesis by (intro conjI)
qed

subsection \<open>One execution\<close>

lemma section_frame [simp]:
  "fig (dividends_section start_date end_date pg) = fig pg"
  "date_range (dividends_section start_date end_date pg) = date_range pg"
  "fund_data (session (dividends_section start_date end_date pg)) = fund_data (session pg)"
  by (simp_all add: dividends_section_def split_beta Let_def split: sum.splits)

lemma tag_dividends_Nil [simp]: "tag_dividends [] = ([], [])"
  by (simp add: tag_dividends_def)

lemma section_cache:
  "fund_dividends (session (dividends_section start_date end_date pg))
     = fst (tag_dividends (fund_dividends (session pg)))"
  by (simp add: dividends_section_def split_beta Let_def split: sum.splits)

lemma date_input_Inr_iff:
  "(\<exists>d. date_input val lo hi pick = Inr d) \<longleftrightarrow>
     (\<exists>v l h. val = Some v \<and> lo = Some l \<and> hi = Some h
        \<and> to_date l \<le> to_date v \<and> to_date v \<le> to_date h)"
  by (auto simp: date_input_def split: option.splits)

lemma date_input_bounds:
  assumes "date_input val lo hi pick = Inr d"
  obtains v l h where "val = Some v" and "lo = Some l" and "hi = Some h"
    and "to_date l \<le> to_date v" and "to_date v \<le> to_date h"
    and "to_date l \<le> d" and "d \<le> to_date h"
    and "pick = None \<Longrightarrow> d = to_date v"
  using assms by (auto simp: date_input_def split: option.splits if_splits)

lemma date_input_Inl:
  "date_input val lo hi pick = Inl e \<Longrightarrow> date_input val lo hi pick' = Inl e"
  by (auto simp: date_input_def split: option.splits if_splits)

lemma render_cases:
  obtains (failed) e where "render now sp ep st = (blank st)\<lparr>failure := Some e\<rparr>"
  | (shown) min_date max_date start_date end_date where
      "resolve_date_range now (fund_dividends st) = Inr (min_date, max_date)"
      "date_input min_date min_date max_date sp = Inr start_date"
      "date_input max_date min_date max_date ep = Inr end_date"
      "render now sp ep st =
         dividends_section start_date end_date
           ((blank st)\<lparr>date_range := Some (start_date, end_date),
                       fig := price_chart (fund_data st)\<rparr>)"
proof (cases "resolve_date_range now (fund_dividends st)")
  case (Inl e)
  then have "render now sp ep st = (blank st)\<lparr>failure := Some e\<rparr>"
    by (simp add: render_def)
  then show ?thesis by (rule failed)
next
  case (Inr p)
  obtain min_date max_date where p: "p = (min_date, max_date)" by (cases p)
  show ?thesis
  proof (cases "date_input min_date min_date max_date sp")
    case (Inl e)
    with Inr p have "render now sp ep st = (blank st)\<lparr>failure := Some e\<rparr>"
      by (simp add: render_def)
    then show ?thesis by (rule failed)
  next
    case start: (Inr start_date)
    show ?thesis
    proof (cases "date_input max_date min_date max_date ep")
      case (Inl e)
      with Inr p start have "render now sp ep st = (blank st)\<lparr>failure := Some e\<rparr>"
        by (simp add: render_def)
      then show ?thesis by (rule failed)
    next
      case last: (Inr end_date)
      with Inr p start have "render now sp ep st =
         dividends_section start_date end_date
           ((blank st)\<lparr>date_range := Some (start_date, end_date),
                       fig := price_chart (fund_data st)\<rparr>)"
        by (simp add: render_def)
      with Inr p start last show ?thesis by (intro shown) simp_all
    qed
  qed
qed

lemma render_fig:
  "fig (render now sp ep st) =
     (case resolve_date_range now (fund_dividends st) of
        Inr (Some lo, Some hi) \<Rightarrow>
          if to_date lo \<le> to_date hi then price_chart (fund_data st) else None
      | _ \<Rightarrow> None)"
  by (auto simp: render_def date_input_def blank_def split: sum.splits prod.splits option.splits)

lemma render_fund_data [simp]: "fund_data (session (render now sp ep st)) = fund_data st"
  by (cases rule: render_cases [of now sp ep st]) (simp_all add: blank_def)

lemma run_cases:
  obtains (aborted) e where
      "fetch_trigger history history' (button inp) (selected_tickers inp) st = Inl e"
      "run history history' inp st = (blank st)\<lparr>failure := Some e\<rparr>"
  | (rendered) st' where
      "fetch_trigger history history' (button inp) (selected_tickers inp) st = Inr st'"
      "run history history' inp st = render (today inp) (start_pick inp) (end_pick inp) st'"
  by (cases "fetch_trigger history history' (button inp) (selected_tickers inp) st")
    (simp_all add: run_def)

lemma ymax_trigger:
  "fetch_trigger ymax_history ymax_history True [''YMAX''] st = Inr ymax_session"
  by (simp add: fetch_trigger_def fetch_ymax ymax_session_def)

lemma ymax_range:
  "resolve_date_range now [(''YMAX'', ymax_divs)]
     = Inr (Some (naive (19358 * ns_per_day)), Some (naive (19389 * ns_per_day)))"
  by (simp add: resolve_date_range_def pd_concat_def localize_dates_def date_min_def
      date_max_def ymax_divs_def tz_localize_None_def naive_def ns_per_day_def)

lemma to_date_naive [simp]: "to_date (naive (d * ns_per_day)) = d"
  by (simp add: to_date_def naive_def ns_per_day_def)

text \<open>
  C6.  The price chart of an execution does not depend on the dates picked in the two
  date widgets: any two picks give the same chart.  When the chart is drawn it has one
  trace per cached ticker, with every row of that ticker's history.
\<close>

theorem price_chart_ignores_date_filter:
  "fig (run history history' (inp\<lparr>start_pick := s1, end_pick := e1\<rparr>) st)
     = fig (run history history' (inp\<lparr>start_pick := s2, end_pick := e2\<rparr>) st)
   \<and> (\<forall>traces. fig (run history history' inp st) = Some traces \<longrightarrow>
         traces = map (\<lambda>(ticker, hist).
                         \<lparr>scatter_name = ticker, scatter_x = map hist_index hist,
                          scatter_y = map hist_Close hist\<rparr>)
                    (fund_data (session (run history history' inp st))))"
proof -
  have a: "fig (run history history' (inp\<lparr>start_pick := s1, end_pick := e1\<rparr>) st)
     = fig (run history history' (inp\<lparr>start_pick := s2, end_pick := e2\<rparr>) st)"
    by (cases "fetch_trigger history history' (button inp) (selected_tickers inp) st")
      (simp_all add: run_def render_fig blank_def)
  have b: "traces = map (\<lambda>(ticker, hist).
                         \<lparr>scatter_name = ticker, scatter_x = map hist_index hist,
                          scatter_y = map hist_Close hist\<rparr>)
                    (fund_data (session (run history history' inp st)))"
    if t: "fig (run history history' inp st) = Some traces" for traces
  proof (cases rule: run_cases [of history history' inp st])
    case (aborted e)
    with t show ?thesis by (simp add: blank_def)
  next
    case (rendered st')
    with t have "fig (render (today inp) (start_pick inp) (end_pick inp) st') = Some traces"
      by simp
    then have "price_chart (fund_data st') = Some traces"
      by (auto simp: render_fig split: sum.splits prod.splits option.splits if_splits)
    then show ?thesis
      by (simp add: rendered(2) price_chart_def split: if_splits)
  qed
  from a b show ?thesis by blast
qed

lemma ymax_fig:
  "fig (run ymax_history ymax_history (ymax_inputs True sp ep) fresh_session) =
     Some [\<lparr>scatter_name = ''YMAX'', scatter_x = map hist_index ymax_hist,
            scatter_y = map hist_Close ymax_hist\<rparr>]"
  by (simp add: run_def ymax_inputs_def ymax_trigger render_fig ymax_session_def ymax_range
      price_chart_def)

theorem price_chart_ignores_date_filter_witness:
  "fig (run ymax_history ymax_history (ymax_inputs True (Some 19389) (Some 19389)) fresh_session)
     = fig (run ymax_history ymax_history (ymax_inputs True None None) fresh_session)
   \<and> fig (run ymax_history ymax_history (ymax_inputs True (Some 19389) (Some 19389)) fresh_session)
     = Some [\<lparr>scatter_name = ''YMAX'', scatter_x = map hist_index ymax_hist,
              scatter_y = map hist_Close ymax_hist\<rparr>]
   \<and> length ymax_hist = 2"
proof -
  have e: "(ymax_inputs True None None)\<lparr>start_pick := sp, end_pick := ep\<rparr> = ymax_inputs True sp ep"
    for sp ep by (simp add: ymax_inputs_def)
  have "fig (run ymax_history ymax_history (ymax_inputs True (Some 19389) (Some 19389)) fresh_session)
     = fig (run ymax_history ymax_history (ymax_inputs True None None) fresh_session)"
    by (rule price_chart_ignores_date_filter [where history = ymax_history
        and history' = ymax_history and inp = "ymax_inputs True None None"
        and ?s1.0 = "Some 19389" and ?e1.0 = "Some 19389" and st = fresh_session
        and ?s2.0 = None and ?e2.0 = None, THEN conjunct1, unfolded e])
  then show ?thesis by (simp add: ymax_fig ymax_hist_def)
qed

lemma untagged_tag: "untagged (fst (tag_dividends dividends)) = untagged dividends"
  by (induction dividends) (auto simp: tag_dividends_def untagged_def)

lemma tag_dividends_idem:
  "fst (tag_dividends (fst (tag_dividends dividends))) = fst (tag_dividends dividends)"
  by (induction dividends) (auto simp: tag_dividends_def)

lemma render_cache:
  "fund_dividends (session (render now sp ep st)) =
     (if date_range (render now sp ep st) = None then fund_dividends st
      else fst (tag_dividends (fund_dividends st)))"
  by (cases rule: render_cases [of now sp ep st]) (simp_all add: blank_def section_cache)

lemma tagged_rows:
  "fst (tag_dividends dividends) =
     map (\<lambda>(ticker, divs). (ticker, map (\<lambda>r. r\<lparr>Ticker := Some ticker\<rparr>) divs)) dividends"
  by (simp add: tag_dividends_def)

lemma tagged_tickers:
  "\<forall>(ticker, divs) \<in> set (fst (tag_dividends dividends)). \<forall>r \<in> set divs. Ticker r = Some ticker"
  by (auto simp: tag_dividends_def)

text \<open>
  C4 (as amended).  After the fetch-trigger branch, which leaves the session untouched
  unless the button was pressed, the rest of the execution leaves the price map as it is
  and keeps the keys, dates and amounts of the dividend map.  An execution that ends
  before the date widgets are built leaves the dividend map as it is; every other
  execution reaches line 90, which writes into every row of every cached dividend table
  the column \<open>Ticker\<close>, equal to the table's key, and changes nothing else.
\<close>

theorem cache_written_by_fetch_and_tagging:
  assumes "fetch_trigger history history' (button inp) (selected_tickers inp) st = Inr st'"
  shows "(button inp \<or> st' = st)
         \<and> fund_data (session (run history history' inp st)) = fund_data st'
         \<and> untagged (fund_dividends (session (run history history' inp st)))
             = untagged (fund_dividends st')
         \<and> (fund_dividends (session (run history history' inp st)) = fund_dividends st'
            \<or> fund_dividends (session (run history history' inp st))
                = fst (tag_dividends (fund_dividends st')))
         \<and> (date_range (run history history' inp st) = None \<longrightarrow>
              fund_dividends (session (run history history' inp st)) = fund_dividends st')
         \<and> (date_range (run history history' inp st) \<noteq> None \<longrightarrow>
              fund_dividends (session (run history history' inp st))
                = map (\<lambda>(ticker, divs). (ticker, map (\<lambda>r. r\<lparr>Ticker := Some ticker\<rparr>) divs))
                    (fund_dividends st')
              \<and> (\<forall>(ticker, divs) \<in> set (fund_dividends (session (run history history' inp st))).
                    \<forall>r \<in> set divs. Ticker r = Some ticker))"
proof -
  let ?pg = "run history history' inp st"
  have r: "?pg = render (today inp) (start_pick inp) (end_pick inp) st'"
    using assms by (simp add: run_def)
  have a: "button inp \<or> st' = st"
    using assms by (auto simp: fetch_trigger_def split: if_splits)
  have d: "fund_data (session ?pg) = fund_data st'"
    unfolding r by simp
  have c: "fund_dividends (session ?pg) =
     (if date_range ?pg = None then fund_dividends st'
      else fst (tag_dividends (fund_dividends st')))"
    unfolding r by (rule render_cache)
  have u: "untagged (fund_dividends (session ?pg)) = untagged (fund_dividends st')"
    unfolding c by (simp add: untagged_tag)
  have e: "fund_dividends (session ?pg) = fund_dividends st'
            \<or> fund_dividends (session ?pg) = fst (tag_dividends (fund_dividends st'))"
    unfolding c by simp
  have n: "fund_dividends (session ?pg) = fund_dividends st'" if "date_range ?pg = None"
    by (simp add: c that)
  have t: "fund_dividends (session ?pg) = fst (tag_dividends (fund_dividends st'))"
    if "date_range ?pg \<noteq> None"
    by (simp add: c that)
  have t1: "fund_dividends (session ?pg)
                = map (\<lambda>(ticker, divs). (ticker, map (\<lambda>r. r\<lparr>Ticker := Some ticker\<rparr>) divs))
                    (fund_dividends st')" if "date_range ?pg \<noteq> None"
    using t [OF that] by (simp only: tagged_rows)
  have t2: "\<forall>(ticker, divs) \<in> set (fund_dividends (session ?pg)).
              \<forall>r \<in> set divs. Ticker r = Some ticker" if "date_range ?pg \<noteq> None"
    unfolding t [OF that] by (rule tagged_tickers)
  from a d u e n t1 t2 show ?thesis by (intro conjI impI)
qed

lemma ymax_run_session:
  "session (run ymax_history ymax_history (ymax_inputs True None None) fresh_session) =
     \<lparr>fund_data = [(''YMAX'', ymax_hist)],
      fund_dividends = [(''YMAX'', map (\<lambda>r. r\<lparr>Ticker := Some ''YMAX''\<rparr>) ymax_divs)]\<rparr>"
  by (simp add: run_def ymax_inputs_def ymax_trigger render_def ymax_session_def ymax_range
      date_input_def section_cache blank_def tag_dividends_def)

lemma ymax_first_range:
  "date_range (run ymax_history ymax_history (ymax_inputs True None None) fresh_session)
     = Some (19358, 19389)"
  by (simp add: run_def ymax_inputs_def ymax_trigger render_def ymax_session_def ymax_range
      date_input_def blank_def)

theorem cache_written_by_fetch_and_tagging_witness:
  "fetch_trigger ymax_history ymax_history (button (ymax_inputs True None None))
      (selected_tickers (ymax_inputs True None None)) fresh_session = Inr ymax_session
   \<and> date_range (run ymax_history ymax_history (ymax_inputs True None None) fresh_session)
       = Some (19358, 19389)
   \<and> fund_dividends ymax_session
       = [(''YMAX'',
           [\<lparr>Date = naive (19358 * ns_per_day), Dividends = Num 0, Ticker = None\<rparr>,
            \<lparr>Date = naive (19389 * ns_per_day), Dividends = Num (1/2), Ticker = None\<rparr>])]
   \<and> fund_dividends
         (session (run ymax_history ymax_history (ymax_inputs True None None) fresh_session))
       = [(''YMAX'',
           [\<lparr>Date = naive (19358 * ns_per_day), Dividends = Num 0, Ticker = Some ''YMAX''\<rparr>,
            \<lparr>Date = naive (19389 * ns_per_day), Dividends = Num (1/2),
             Ticker = Some ''YMAX''\<rparr>])]
   \<and> fund_data (session (run ymax_history ymax_history (ymax_inputs True None None) fresh_session))
       = fund_data ymax_session
   \<and> untagged (fund_dividends
         (session (run ymax_history ymax_history (ymax_inputs True None None) fresh_session)))
       = untagged (fund_dividends ymax_session)"
proof -
  let ?pg = "run ymax_history ymax_history (ymax_inputs True None None) fresh_session"
  have t: "fetch_trigger ymax_history ymax_history (button (ymax_inputs True None None))
      (selected_tickers (ymax_inputs True None None)) fresh_session = Inr ymax_session"
    by (simp add: ymax_inputs_def ymax_trigger)
  note c = cache_written_by_fetch_and_tagging [OF t]
  have s: "date_range ?pg \<noteq> None"
    by (simp add: ymax_first_range)
  have o: "fund_dividends ymax_session
       = [(''YMAX'',
           [\<lparr>Date = naive (19358 * ns_per_day), Dividends = Num 0, Ticker = None\<rparr>,
            \<lparr>Date = naive (19389 * ns_per_day), Dividends = Num (1/2), Ticker = None\<rparr>])]"
    by (simp add: ymax_session_def ymax_divs_def)
  from c have "date_range ?pg \<noteq> None \<longrightarrow>
      fund_dividends (session ?pg)
        = map (\<lambda>(ticker, divs). (ticker, map (\<lambda>r. r\<lparr>Ticker := Some ticker\<rparr>) divs))
            (fund_dividends ymax_session)
      \<and> (\<forall>(ticker, divs) \<in> set (fund_dividends (session ?pg)).
            \<forall>r \<in> set divs. Ticker r = Some ticker)"
    by (elim conjE)
  with s have "fund_dividends (session ?pg)
        = map (\<lambda>(ticker, divs). (ticker, map (\<lambda>r. r\<lparr>Ticker := Some ticker\<rparr>) divs))
            (fund_dividends ymax_session)"
    by (elim impE conjE)
  then have g: "fund_dividends (session ?pg)
       = [(''YMAX'',
           [\<lparr>Date = naive (19358 * ns_per_day), Dividends = Num 0, Ticker = Some ''YMAX''\<rparr>,
            \<lparr>Date = naive (19389 * ns_per_day), Dividends = Num (1/2),
             Ticker = Some ''YMAX''\<rparr>])]"
    unfolding o by simp
  from t ymax_first_range o g c [THEN conjunct2, THEN conjunct1]
    c [THEN conjunct2, THEN conjunct2, THEN conjunct1]
  show ?thesis by (intro conjI)
qed

text \<open>
  C4 as stated fails: the dividend table step changes the cached dividend tables that
  the fetch-trigger branch has just stored.
\<close>

theorem table_building_mutates_cache:
  "fetch_trigger ymax_history ymax_history True [''YMAX''] fresh_session = Inr ymax_session
   \<and> fund_dividends (session (render (naive (20000 * ns_per_day)) None None ymax_session))
       \<noteq> fund_dividends ymax_session
   \<and> session (run ymax_history ymax_history (ymax_inputs True None None) fresh_session)
       \<noteq> ymax_session"
proof -
  have "render (naive (20000 * ns_per_day)) None None ymax_session
          = run ymax_history ymax_history (ymax_inputs True None None) fresh_session"
    by (simp add: run_def ymax_inputs_def ymax_trigger)
  moreover have "map (\<lambda>r. r\<lparr>Ticker := Some ''YMAX''\<rparr>) ymax_divs \<noteq> ymax_divs"
    by (simp add: ymax_divs_def)
  ultimately show ?thesis
    by (simp add: ymax_trigger ymax_run_session ymax_session_def)
qed

lemma render_date_range:
  assumes "date_range (render now sp ep st) = Some (start_date, end_date)"
  obtains min_date max_date where
    "resolve_date_range now (fund_dividends st) = Inr (min_date, max_date)"
    "date_input min_date min_date max_date sp = Inr start_date"
    "date_input max_date min_date max_date ep = Inr end_date"
proof (cases rule: render_cases [of now sp ep st])
  case (failed e)
  with assms show ?thesis by (simp add: blank_def)
next
  case (shown min_date max_date s e)
  with assms have "s = start_date" "e = end_date" by (simp_all add: blank_def)
  with shown that show ?thesis by blast
qed

text \<open>
  C5 (as amended).  Whenever the two date widgets are shown, the start date and the end
  date each lie within the resolved bounds, the lower bound is not after the upper, a
  widget left alone holds its bound, and with both left alone start \<open>\<le>\<close> end.
\<close>

theorem date_range_within_bounds:
  assumes "date_range (run history history' inp st) = Some (start_date, end_date)"
  shows "\<exists>st' lo hi.
           fetch_trigger history history' (button inp) (selected_tickers inp) st = Inr st'
           \<and> resolve_date_range (today inp) (fund_dividends st') = Inr (Some lo, Some hi)
           \<and> to_date lo \<le> to_date hi
           \<and> to_date lo \<le> start_date \<and> start_date \<le> to_date hi
           \<and> to_date lo \<le> end_date \<and> end_date \<le> to_date hi
           \<and> (start_pick inp = None \<longrightarrow> start_date = to_date lo)
           \<and> (end_pick inp = None \<longrightarrow> end_date = to_date hi)
           \<and> (start_pick inp = None \<and> end_pick inp = None \<longrightarrow> start_date \<le> end_date)"
proof (cases rule: run_cases [of history history' inp st])
  case (aborted e)
  with assms show ?thesis by (simp add: blank_def)
next
  case (rendered st')
  with assms have
    "date_range (render (today inp) (start_pick inp) (end_pick inp) st')
       = Some (start_date, end_date)" by simp
  then obtain min_date max_date where
    r: "resolve_date_range (today inp) (fund_dividends st') = Inr (min_date, max_date)"
    and s: "date_input min_date min_date max_date (start_pick inp) = Inr start_date"
    and e: "date_input max_date min_date max_date (end_pick inp) = Inr end_date"
    by (rule render_date_range)
  from s obtain lo hi where
    m: "min_date = Some lo" "max_date = Some hi"
    and sb: "to_date lo \<le> start_date" "start_date \<le> to_date hi"
    and sd: "start_pick inp = None \<Longrightarrow> start_date = to_date lo"
    by (auto elim!: date_input_bounds)
  from e m have
    eb: "to_date lo \<le> end_date" "end_date \<le> to_date hi"
    and ed: "end_pick inp = None \<Longrightarrow> end_date = to_date hi"
    by (auto elim!: date_input_bounds)
  from sb eb have "to_date lo \<le> to_date hi" by simp
  with rendered(1) r m sb eb sd ed show ?thesis by auto
qed

lemma ymax_date_range:
  "date_range (run ymax_history ymax_history (ymax_inputs False sp ep)
      (session (run ymax_history ymax_history (ymax_inputs True None None) fresh_session)))
   = Some (case sp of None \<Rightarrow> 19358 | Some d \<Rightarrow> if 19358 \<le> d \<and> d \<le> 19389 then d else 19358,
           case ep of None \<Rightarrow> 19389 | Some d \<Rightarrow> if 19358 \<le> d \<and> d \<le> 19389 then d else 19389)"
proof -
  have r: "resolve_date_range now [(''YMAX'', map (\<lambda>r. r\<lparr>Ticker := Some ''YMAX''\<rparr>) ymax_divs)]
     = Inr (Some (naive (19358 * ns_per_day)), Some (naive (19389 * ns_per_day)))" for now
    by (simp add: resolve_date_range_def pd_concat_def localize_dates_def date_min_def
      date_max_def ymax_divs_def tz_localize_None_def naive_def ns_per_day_def)
  show ?thesis
    unfolding ymax_run_session
    by (simp add: run_def fetch_trigger_def ymax_inputs_def render_def r
        date_input_def blank_def split: option.splits)
qed

theorem date_range_within_bounds_witness:
  "date_range (run ymax_history ymax_history (ymax_inputs False (Some 19360) None)
      (session (run ymax_history ymax_history (ymax_inputs True None None) fresh_session)))
     = Some (19360, 19389)
   \<and> (\<exists>(st' :: session_state) lo hi.
         resolve_date_range (today (ymax_inputs False (Some 19360) None)) (fund_dividends st')
           = Inr (Some lo, Some hi)
         \<and> to_date lo \<le> 19360 \<and> 19360 \<le> to_date hi
         \<and> to_date lo \<le> 19389 \<and> 19389 \<le> to_date hi)"
proof -
  have d: "date_range (run ymax_history ymax_history (ymax_inputs False (Some 19360) None)
      (session (run ymax_history ymax_history (ymax_inputs True None None) fresh_session)))
     = Some (19360, 19389)"
    by (simp add: ymax_date_range)
  from date_range_within_bounds [OF d] obtain st' :: session_state and lo hi where
    "resolve_date_range (today (ymax_inputs False (Some 19360) None)) (fund_dividends st')
       = Inr (Some lo, Some hi)"
    "to_date lo \<le> 19360" "19360 \<le> to_date hi" "to_date lo \<le> 19389" "19389 \<le> to_date hi"
    by blast
  then have "\<exists>(st' :: session_state) lo hi.
         resolve_date_range (today (ymax_inputs False (Some 19360) None)) (fund_dividends st')
           = Inr (Some lo, Some hi)
         \<and> to_date lo \<le> 19360 \<and> 19360 \<le> to_date hi
         \<and> to_date lo \<le> 19389 \<and> 19389 \<le> to_date hi"
    by blast
  with d show ?thesis by (rule conjI)
qed

text \<open>
  C5 as stated fails: after a fetch, the user picks the last date as start and the first
  as end; both are within the bounds and the range has start after end.
\<close>

theorem start_after_end_reachable:
  "date_range (run ymax_history ymax_history (ymax_inputs False (Some 19389) (Some 19358))
      (session (run ymax_history ymax_history (ymax_inputs True None None) fresh_session)))
     = Some (19389, 19358)
   \<and> \<not> (19389 :: date) \<le> 19358"
  by (simp add: ymax_date_range)

lemma resolve_date_range_total: "\<exists>p. resolve_date_range now dividends = Inr p"
  by (simp add: resolve_date_range_def pd_concat_def Let_def)

lemma fetch_empty:
  "fetch_yieldmax_data empty_history empty_history [''YMAX'']
     = Inr ([(''YMAX'', [])], [(''YMAX'', [])])"
  by (simp add: fetch_yieldmax_data_def empty_history_def normalize_divs_def reset_index_def)

text \<open>
  C3.  A provider that returns an empty history leaves a cache with a ticker and no
  dividend row.  The resolver computes \<open>(NaT, NaT)\<close> from it without raising, the date
  widget cannot be built, and the execution ends with an exception.
\<close>

theorem empty_tables_give_NaT:
  "fetch_yieldmax_data empty_history empty_history [''YMAX'']
     = Inr ([(''YMAX'', [])], [(''YMAX'', [])])
   \<and> resolve_date_range now [(''YMAX'', [])] = Inr (None, None)
   \<and> date_range (run empty_history empty_history
        \<lparr>selected_tickers = [''YMAX''], button = True, start_pick = sp, end_pick = ep,
         today = now\<rparr> fresh_session) = None
   \<and> failure (run empty_history empty_history
        \<lparr>selected_tickers = [''YMAX''], button = True, start_pick = sp, end_pick = ep,
         today = now\<rparr> fresh_session) \<noteq> None"
proof -
  have r: "resolve_date_range now [(''YMAX'', [])] = Inr (None, None)"
    by (simp add: resolve_date_range_def pd_concat_def localize_dates_def date_min_def
        date_max_def)
  show ?thesis
    by (simp add: fetch_empty r run_def fetch_trigger_def render_def date_input_def blank_def)
qed

end
